theory Spec2Isabelle
  imports Main
begin

section \<open>Errors and operating-system values\<close>

text \<open>
  The error codes \<open>connect\<close> in \<open>socket.go\<close> distinguishes by name; \<open>Errno n\<close> stands for
  every other code of \<open>unix.Errno\<close>. A Go \<open>error\<close> that may be \<open>nil\<close> is an
  \<open>option\<close>, with \<open>None\<close> for \<open>nil\<close>.
\<close>

datatype errno = EALREADY | EINPROGRESS | EINTR | EISCONN | EINVAL | Errno nat

datatype error =
    Syscall errno
  | ErrTimeout
  | ErrCheckerAlreadyStarted
  | ErrConnect "errno"
  | Wrap error string
  | ErrOther string

text \<open>\<open>errors.Cause\<close> of \<open>github.com/pkg/errors\<close>: the error under every \<open>Wrap\<close>.\<close>

fun Cause :: "error \<Rightarrow> error" where
  "Cause (Wrap e msg) = Cause e"
| "Cause e = e"

datatype sockaddr = SockaddrInet4 (Port: nat) (Addr: "nat list")

section \<open>The connect attempt (\<open>socket.go\<close>)\<close>

text \<open>
  The \<open>switch\<close> of \<open>connect\<close> on the value \<open>serr\<close> returned by \<open>unix.Connect(fd, addr)\<close>,
  case by case in the order of the source; \<open>goos\<close> is \<open>runtime.GOOS\<close>. The result is the
  pair \<open>(success, err)\<close>.
\<close>

fun connect_switch :: "string \<Rightarrow> errno option \<Rightarrow> bool \<times> errno option" where
  "connect_switch goos (Some EALREADY) = (False, None)"
| "connect_switch goos (Some EINPROGRESS) = (False, None)"
| "connect_switch goos (Some EINTR) = (False, None)"
| "connect_switch goos None = (True, None)"
| "connect_switch goos (Some EISCONN) = (True, None)"
| "connect_switch goos (Some EINVAL) =
     (if goos = ''solaris'' then (True, None) else (False, Some EINVAL))"
| "connect_switch goos (Some (Errno n)) = (False, Some (Errno n))"


section \<open>The state of a Checker and of its process\<close>

text \<open>
  A readiness event \<open>{Fd, Err}\<close> as \<open>pollEvents\<close> returns it.
\<close>

datatype event = Event (Fd: int) (Err: "error option")

text \<open>
  Every call that leaves the function being modelled is recorded, in program order: the
  calls of package \<open>unix\<close>, and the calls of the poller binding, the Completion Registry
  (\<open>resultPipes\<close>) and the Channel Pool (\<open>pipePool\<close>), whose sources are not part of the
  repository's files.
\<close>

datatype call =
    Socket_AF_INET_SOCK_STREAM
  | CloseOnExec int
  | SetNonblock int bool
  | SetsockoptInt_TCP_QUICKACK int int
  | Connect int sockaddr
  | Close int
  | CreatePoller
  | RegisterEvents int int
  | PollEvents int
  | GetPipe nat
  | PutBackPipe nat
  | RegisterResultPipe int nat
  | PopResultPipe int
  | DeregisterResultPipe int
  | TimeAfter int

text \<open>
  The fields of \<open>struct Checker\<close>, together with the part of the heap they point into.
  A delivery channel (\<open>chan error\<close>) is named by a number; \<open>chans c p\<close> is the content of
  the single slot of channel \<open>p\<close> (\<open>None\<close> when it is empty). \<open>isReady\<close> names the channel
  the field currently holds and \<open>isReady_closed\<close> says whether that channel is closed.
  \<open>pollerLock\<close> makes the bodies of \<open>createPoller\<close> and \<open>closePoller\<close> atomic; each body is
  one step of the model, so the mutex itself is not a field.
\<close>

record checker =
  pipePool :: "nat list"
  next_pipe :: nat
  chans :: "nat \<Rightarrow> error option option"
  resultPipes :: "int \<rightharpoonup> nat"
  pollerFd :: int
  isReady :: nat
  isReady_closed :: bool
  calls :: "call list"

definition NewChecker :: checker where
  "NewChecker = \<lparr>pipePool = [], next_pipe = 0, chans = (\<lambda>p. None), resultPipes = Map.empty,
     pollerFd = - 1, isReady = 0, isReady_closed = False, calls = []\<rparr>"

definition called :: "call \<Rightarrow> checker \<Rightarrow> checker" where
  "called x c = c\<lparr>calls := calls c @ [x]\<rparr>"

text \<open>\<open>pollerFd\<close> is an \<open>int32\<close>: \<open>setPollerFD\<close> converts with \<open>int32(fd)\<close>.\<close>

definition int32 :: "int \<Rightarrow> int" where
  "int32 x = signed_take_bit 31 x"

definition pollerFD :: "checker \<Rightarrow> int" where
  "pollerFD c = pollerFd c"

definition setPollerFD :: "int \<Rightarrow> checker \<Rightarrow> checker" where
  "setPollerFD fd c = c\<lparr>pollerFd := int32 fd\<rparr>"

definition setReady :: "checker \<Rightarrow> checker option" where
  \<comment> \<open>\<open>close(c.isReady)\<close>; closing a closed channel panics (\<open>None\<close>).\<close>
  "setReady c = (if isReady_closed c then None else Some (c\<lparr>isReady_closed := True\<rparr>))"

definition resetReady :: "checker \<Rightarrow> checker" where
  \<comment> \<open>\<open>c.isReady = make(chan struct{})\<close>: a new, open channel.\<close>
  "resetReady c = c\<lparr>isReady := Suc (isReady c), isReady_closed := False\<rparr>"

text \<open>
  \<open>WaitReady\<close> returns the channel of the field; a receive from it blocks exactly while the
  channel is open.
\<close>

definition WaitReady :: "checker \<Rightarrow> nat" where
  "WaitReady c = isReady c"

definition WaitReady_blocks :: "checker \<Rightarrow> bool" where
  "WaitReady_blocks c = (\<not> isReady_closed c)"

subsection \<open>Channel Pool and Completion Registry\<close>

text \<open>
  Modelled from the spec: the methods of \<open>pipePool\<close> (\<open>getPipe\<close>, \<open>putBackPipe\<close>) are not
  in the source files. Section 4.4: acquire "returns a ready-to-use, empty delivery
  channel (newly made if pool is empty)"; release "returns a channel to the pool".
  Section 3: a delivery channel is single-slot and "must be drained/reset so pooled
  reuse never observes a stale value": release empties the slot.
\<close>

definition getPipe :: "checker \<Rightarrow> checker \<times> nat" where
  "getPipe c =
     (case pipePool c of
        [] \<Rightarrow> (let p = next_pipe c
               in (called (GetPipe p) (c\<lparr>next_pipe := Suc p, chans := (chans c)(p := None)\<rparr>), p))
      | p # ps \<Rightarrow> (called (GetPipe p) (c\<lparr>pipePool := ps\<rparr>), p))"

definition putBackPipe :: "nat \<Rightarrow> checker \<Rightarrow> checker" where
  "putBackPipe p c =
     called (PutBackPipe p) (c\<lparr>chans := (chans c)(p := None), pipePool := p # pipePool c\<rparr>)"

text \<open>
  Modelled from the spec: the methods of \<open>resultPipes\<close> are not in the source files.
  Section 4.3: register associates the descriptor with the channel; pop "atomically
  retrieves and removes the entry; returns not found if none exists"; deregister
  "removes an entry without requiring a prior pop".
\<close>

definition registerResultPipe :: "int \<Rightarrow> nat \<Rightarrow> checker \<Rightarrow> checker" where
  "registerResultPipe fd p c =
     called (RegisterResultPipe fd p) (c\<lparr>resultPipes := (resultPipes c)(fd \<mapsto> p)\<rparr>)"

definition popResultPipe :: "int \<Rightarrow> checker \<Rightarrow> checker \<times> nat option" where
  "popResultPipe fd c =
     (called (PopResultPipe fd) (c\<lparr>resultPipes := (resultPipes c)(fd := None)\<rparr>),
      resultPipes c fd)"

definition deregisterResultPipe :: "int \<Rightarrow> checker \<Rightarrow> checker" where
  "deregisterResultPipe fd c =
     called (DeregisterResultPipe fd) (c\<lparr>resultPipes := (resultPipes c)(fd := None)\<rparr>)"

subsection \<open>Channel operations\<close>

text \<open>
  A goroutine either goes on in a new state or is parked on a channel operation.
  A send on a delivery channel goes on when the slot is empty and parks when it is full.
\<close>

datatype progress = Done checker | Blocked checker

fun state_of :: "progress \<Rightarrow> checker" where
  "state_of (Done c) = c"
| "state_of (Blocked c) = c"

definition chan_send :: "nat \<Rightarrow> error option \<Rightarrow> checker \<Rightarrow> progress" where
  "chan_send p v c =
     (case chans c p of
        None \<Rightarrow> Done (c\<lparr>chans := (chans c)(p \<mapsto> v)\<rparr>)
      | Some w \<Rightarrow> Blocked c)"

definition chan_recv :: "nat \<Rightarrow> checker \<Rightarrow> (checker \<times> error option) option" where
  "chan_recv p c =
     (case chans c p of
        None \<Rightarrow> None
      | Some v \<Rightarrow> Some (c\<lparr>chans := (chans c)(p := None)\<rparr>, v))"

section \<open>The polling loop (\<open>checker.go\<close>)\<close>

fun handlePollerEvents :: "event list \<Rightarrow> checker \<Rightarrow> progress" where
  "handlePollerEvents [] c = Done c"
| "handlePollerEvents (ev # events) c =
     (case popResultPipe (Fd ev) c of
        (c1, Some pipe) \<Rightarrow>
          (case chan_send pipe (Err ev) c1 of
             Done c2 \<Rightarrow> handlePollerEvents events c2
           | Blocked c2 \<Rightarrow> Blocked c2)
      | (c1, None) \<Rightarrow> handlePollerEvents events c1)"

text \<open>
  The method \<open>createPoller\<close>. \<open>res\<close> is what the poller binding's \<open>createPoller()\<close> returns
  when it is called.
\<close>

definition createPoller :: "int \<times> error option \<Rightarrow> checker \<Rightarrow> checker \<times> int \<times> error option" where
  "createPoller res c =
     (if pollerFD c > 0 then (c, - 1, Some ErrCheckerAlreadyStarted)
      else (let c1 = called CreatePoller c in
            case res of
              (fd, Some err) \<Rightarrow> (c1, - 1, Some err)
            | (fd, None) \<Rightarrow> (setPollerFD fd c1, fd, None)))"

definition closePoller :: "checker \<Rightarrow> checker" where
  "closePoller c =
     setPollerFD (- 1) (if pollerFD c > 0 then called (Close (pollerFD c)) c else c)"

text \<open>
  One iteration of \<open>pollingLoop\<close> sees either the context cancelled or the result of
  \<open>pollEvents\<close>. The loop runs on a finite prefix of what its environment does; when the
  prefix ends with the loop still going, the result is \<open>Running\<close>.
\<close>

datatype iteration = CtxDone | Poll "error + event list"

datatype result = Returned "error option" | Panicked | Parked | Running

fun pollingLoop :: "int \<Rightarrow> iteration list \<Rightarrow> checker \<Rightarrow> result \<times> checker" where
  "pollingLoop pfd [] c = (Running, c)"
| "pollingLoop pfd (CtxDone # its) c = (Returned None, c)"
| "pollingLoop pfd (Poll r # its) c =
     (let c1 = called (PollEvents pfd) c in
      case r of
        Inl err \<Rightarrow> (Returned (Some (Wrap err ''error during polling loop'')), c1)
      | Inr events \<Rightarrow>
          (case handlePollerEvents events c1 of
             Done c2 \<Rightarrow> pollingLoop pfd its c2
           | Blocked c2 \<Rightarrow> (Parked, c2)))"

text \<open>
  \<open>CheckingLoop\<close>: the deferred \<open>resetReady\<close> and \<open>closePoller\<close> run, in this order, when
  \<open>pollingLoop\<close> returns; a panic of \<open>setReady\<close> runs the one deferred call registered
  before it.
\<close>

definition CheckingLoop :: "int \<times> error option \<Rightarrow> iteration list \<Rightarrow> checker \<Rightarrow> result \<times> checker" where
  "CheckingLoop res its c =
     (case createPoller res c of
        (c1, pfd, Some err) \<Rightarrow> (Returned (Some (Wrap err ''error creating poller'')), c1)
      | (c1, pfd, None) \<Rightarrow>
          (case setReady c1 of
             None \<Rightarrow> (Panicked, closePoller c1)
           | Some c2 \<Rightarrow>
               (case pollingLoop pfd its c2 of
                  (Returned r, c3) \<Rightarrow> (Returned r, closePoller (resetReady c3))
                | (other, c3) \<Rightarrow> (other, c3))))"

section \<open>Checking an address (\<open>socket.go\<close>, \<open>checker.go\<close>)\<close>

text \<open>
  What the environment of one \<open>CheckAddr\<close> call does: the platform, the two readings of
  the clock (nanoseconds), the results of \<open>parseSockAddr\<close>, \<open>unix.Socket\<close>,
  \<open>unix.Connect\<close>, \<open>unix.SetNonblock\<close>, \<open>unix.SetsockoptInt\<close> and \<open>registerEvents\<close>, and
  the polling loop: \<open>delivery = Some (d, events)\<close> when the loop handles the batch
  \<open>events\<close> \<open>d\<close> nanoseconds after the caller starts to wait. \<open>tie\<close> is the choice of the
  \<open>select\<close> statement when both of its cases are ready: \<open>True\<close> for the receive.
  Times and durations are unbounded integers; they are the values of \<open>time.Time\<close> and
  \<open>time.Duration\<close> as long as these stay within 64 bits.
\<close>

record os =
  goos :: string
  now_entry :: int
  now_wait :: int
  parseSockAddr :: "string \<Rightarrow> error + sockaddr"
  socket_res :: "int \<times> errno option"
  setNonblock_res :: "errno option"
  setsockoptInt_res :: "errno option"
  connect_res :: "errno option"
  registerEvents_res :: "error option"
  delivery :: "(nat \<times> event list) option"
  tie :: bool

text \<open>
  \<open>createSocket\<close>: its six parameters are not used by its body, and \<open>CheckAddr\<close> calls it
  without arguments. \<open>unix.CloseOnExec(fd)\<close> is called whatever \<open>unix.Socket\<close> returned.
\<close>

definition createSocket :: "os \<Rightarrow> checker \<Rightarrow> checker \<times> int \<times> errno option" where
  "createSocket os c =
     (case socket_res os of
        (fd, err) \<Rightarrow> (called (CloseOnExec fd) (called Socket_AF_INET_SOCK_STREAM c), fd, err))"

definition setSockOpts :: "os \<Rightarrow> int \<Rightarrow> checker \<Rightarrow> checker \<times> errno option" where
  "setSockOpts os fd c =
     (let c1 = called (SetNonblock fd True) c in
      case setNonblock_res os of
        Some err \<Rightarrow> (c1, Some err)
      | None \<Rightarrow> (called (SetsockoptInt_TCP_QUICKACK fd 0) c1, setsockoptInt_res os))"

definition connect :: "os \<Rightarrow> int \<Rightarrow> sockaddr \<Rightarrow> checker \<Rightarrow> checker \<times> bool \<times> errno option" where
  "connect os fd addr c = (called (Connect fd addr) c, connect_switch (goos os) (connect_res os))"

text \<open>
  \<open>waitPipeTimeout\<close>: \<open>time.After(timeout)\<close> fires \<open>max 0 timeout\<close> after the call. The
  receive case is ready at once when the slot of \<open>pipe\<close> is full, and otherwise when the
  polling loop has handled a batch that fills it. The case that is ready first is taken.
\<close>

definition waitPipeTimeout :: "os \<Rightarrow> nat \<Rightarrow> int \<Rightarrow> checker \<Rightarrow> checker \<times> error option" where
  "waitPipeTimeout os pipe timeout c =
     (let c0 = called (TimeAfter timeout) c; fire = max 0 timeout in
      case chan_recv pipe c0 of
        Some (c1, ret) \<Rightarrow> if 0 < fire \<or> tie os then (c1, ret) else (c0, Some ErrTimeout)
      | None \<Rightarrow>
          (case delivery os of
             None \<Rightarrow> (c0, Some ErrTimeout)
           | Some (d, events) \<Rightarrow>
               if int d < fire \<or> (int d = fire \<and> tie os) then
                 (let c1 = state_of (handlePollerEvents events c0) in
                  case chan_recv pipe c1 of
                    Some (c2, ret) \<Rightarrow> (c2, ret)
                  | None \<Rightarrow> (c1, Some ErrTimeout))
               else (c0, Some ErrTimeout)))"

definition waitConnectResult :: "os \<Rightarrow> int \<Rightarrow> int \<Rightarrow> checker \<Rightarrow> checker \<times> error option" where
  "waitConnectResult os fd timeout c =
     (case getPipe c of
        (c1, resultPipe) \<Rightarrow>
          (let c2 = registerResultPipe fd resultPipe c1;
               c3 = called (RegisterEvents (pollerFD c2) fd) c2;
               (c4, ret) = (case registerEvents_res os of
                              Some err \<Rightarrow> (c3, Some err)
                            | None \<Rightarrow> waitPipeTimeout os resultPipe timeout c3)
           in (putBackPipe resultPipe (deregisterResultPipe fd c4), ret)))"

definition CheckAddr :: "os \<Rightarrow> string \<Rightarrow> int \<Rightarrow> checker \<Rightarrow> checker \<times> error option" where
  "CheckAddr os addr timeout c =
     (let deadline = now_entry os + timeout in
      case parseSockAddr os addr of
        Inl err \<Rightarrow> (c, Some err)
      | Inr rAddr \<Rightarrow>
          (case createSocket os c of
             (c1, fd, Some err) \<Rightarrow> (c1, Some (Syscall err))
           | (c1, fd, None) \<Rightarrow>
               (let (c3, ret) =
                      (case connect os fd rAddr c1 of
                         (c2, success, Some cErr) \<Rightarrow> (c2, Some (ErrConnect cErr))
                       | (c2, success, None) \<Rightarrow>
                           if success then (c2, None)
                           else waitConnectResult os fd (deadline - now_wait os) c2)
                in (called (Close fd) c3, ret))))"

subsection \<open>A concrete environment\<close>

text \<open>
  One environment on which the definitions are evaluated: Linux, a socket with descriptor
  5, a connect attempt that is in progress, and a polling loop that handles a successful
  readiness event for descriptor 5 after 100 nanoseconds.
\<close>

definition os_example :: os where
  "os_example = \<lparr>goos = ''linux'', now_entry = 1000, now_wait = 1500,
     parseSockAddr = (\<lambda>s. Inr (SockaddrInet4 80 [10, 0, 0, 1])),
     socket_res = (5, None), setNonblock_res = None, setsockoptInt_res = None,
     connect_res = Some EINPROGRESS, registerEvents_res = None,
     delivery = Some (100, [Event 5 None]), tie = False\<rparr>"

section \<open>Waiters and the polling loop, step by step\<close>

text \<open>
  \<open>waitConnectResult\<close> and \<open>handlePollerEvents\<close> run in different goroutines. Here each
  of them is cut at the calls it makes on the shared state, and a schedule says which
  goroutine takes its next step. A waiter is a call of \<open>waitConnectResult(fd, timeout)\<close>
  whose poller registration succeeds; its stage says how far it has come and holds its
  local variable \<open>resultPipe\<close> and, once it is known, the value it returns.
\<close>

datatype stage =
    W_start
  | W_acquired nat
  | W_registered nat
  | W_waiting nat
  | W_leaving nat "error option"
  | W_deregistered nat "error option"
  | W_returned "error option"

record waiter =
  w_fd :: int
  w_timeout :: int
  w_stage :: stage

text \<open>
  The polling loop is either between two events or between \<open>popResultPipe\<close>, which has
  returned a channel, and the send \<open>pipe <- event.Err\<close> of the event's error on it.
\<close>

datatype poller = P_idle | P_popped nat "error option"

record system =
  shared :: checker
  waiters :: "waiter list"
  poller :: poller

datatype action =
    Acquire nat
  | Register nat
  | RegisterEv nat
  | Receive nat
  | Timeout nat
  | Deregister nat
  | PutBack nat
  | Pop event
  | Send

definition set_stage :: "nat \<Rightarrow> stage \<Rightarrow> checker \<Rightarrow> system \<Rightarrow> system option" where
  "set_stage i st c s =
     Some (s\<lparr>shared := c, waiters := (waiters s)[i := (waiters s ! i)\<lparr>w_stage := st\<rparr>]\<rparr>)"

text \<open>
  One step; \<open>None\<close> when the goroutine is not at that step or cannot take it now (a
  receive from an empty channel, a send on a full one). The timer case of \<open>select\<close> can
  be taken at any time the waiter is waiting: when the timer fires is up to the clock.
\<close>

definition waiter_step :: "action \<Rightarrow> nat \<Rightarrow> system \<Rightarrow> system option" where
  "waiter_step a i s =
     (if i < length (waiters s) then
        (let w = waiters s ! i; c = shared s in
         case (a, w_stage w) of
           (Acquire _, W_start) \<Rightarrow>
             (case getPipe c of (c1, p) \<Rightarrow> set_stage i (W_acquired p) c1 s)
         | (Register _, W_acquired p) \<Rightarrow>
             set_stage i (W_registered p) (registerResultPipe (w_fd w) p c) s
         | (RegisterEv _, W_registered p) \<Rightarrow>
             set_stage i (W_waiting p)
               (called (TimeAfter (w_timeout w)) (called (RegisterEvents (pollerFD c) (w_fd w)) c)) s
         | (Receive _, W_waiting p) \<Rightarrow>
             (case chan_recv p c of
                None \<Rightarrow> None
              | Some (c1, ret) \<Rightarrow> set_stage i (W_leaving p ret) c1 s)
         | (Timeout _, W_waiting p) \<Rightarrow> set_stage i (W_leaving p (Some ErrTimeout)) c s
         | (Deregister _, W_leaving p ret) \<Rightarrow>
             set_stage i (W_deregistered p ret) (deregisterResultPipe (w_fd w) c) s
         | (PutBack _, W_deregistered p ret) \<Rightarrow>
             set_stage i (W_returned ret) (putBackPipe p c) s
         | _ \<Rightarrow> None)
      else None)"

definition poller_step :: "action \<Rightarrow> system \<Rightarrow> system option" where
  "poller_step a s =
     (case (a, poller s) of
        (Pop ev, P_idle) \<Rightarrow>
          (case popResultPipe (Fd ev) (shared s) of
             (c1, Some pipe) \<Rightarrow> Some (s\<lparr>shared := c1, poller := P_popped pipe (Err ev)\<rparr>)
           | (c1, None) \<Rightarrow> Some (s\<lparr>shared := c1\<rparr>))
      | (Send, P_popped pipe v) \<Rightarrow>
          (case chan_send pipe v (shared s) of
             Done c1 \<Rightarrow> Some (s\<lparr>shared := c1, poller := P_idle\<rparr>)
           | Blocked c1 \<Rightarrow> None)
      | _ \<Rightarrow> None)"

fun step :: "action \<Rightarrow> system \<Rightarrow> system option" where
  "step (Acquire i) s = waiter_step (Acquire i) i s"
| "step (Register i) s = waiter_step (Register i) i s"
| "step (RegisterEv i) s = waiter_step (RegisterEv i) i s"
| "step (Receive i) s = waiter_step (Receive i) i s"
| "step (Timeout i) s = waiter_step (Timeout i) i s"
| "step (Deregister i) s = waiter_step (Deregister i) i s"
| "step (PutBack i) s = waiter_step (PutBack i) i s"
| "step (Pop ev) s = poller_step (Pop ev) s"
| "step Send s = poller_step Send s"

fun run :: "action list \<Rightarrow> system \<Rightarrow> system option" where
  "run [] s = Some s"
| "run (a # as) s = (case step a s of None \<Rightarrow> None | Some s1 \<Rightarrow> run as s1)"

text \<open>
  Two checks on one Checker: the first waits on descriptor 7, the second on descriptor 8,
  each for 200 ms.
\<close>

definition two_waiters :: system where
  "two_waiters = \<lparr>shared = NewChecker,
     waiters = [\<lparr>w_fd = 7, w_timeout = 200000000, w_stage = W_start\<rparr>,
                \<lparr>w_fd = 8, w_timeout = 200000000, w_stage = W_start\<rparr>],
     poller = P_idle\<rparr>"


section \<open>Properties\<close>

subsection \<open>What each operation leaves unchanged\<close>

lemma called_simps [simp]:
  "calls (called x c) = calls c @ [x]"
  "pipePool (called x c) = pipePool c"
  "chans (called x c) = chans c"
  "resultPipes (called x c) = resultPipes c"
  "pollerFd (called x c) = pollerFd c"
  "next_pipe (called x c) = next_pipe c"
  "isReady (called x c) = isReady c"
  "isReady_closed (called x c) = isReady_closed c"
  by (simp_all add: called_def)

lemma popResultPipe_simps [simp]:
  "calls (fst (popResultPipe fd c)) = calls c @ [PopResultPipe fd]"
  "pipePool (fst (popResultPipe fd c)) = pipePool c"
  "pollerFd (fst (popResultPipe fd c)) = pollerFd c"
  "chans (fst (popResultPipe fd c)) = chans c"
  "resultPipes (fst (popResultPipe fd c)) = (resultPipes c)(fd := None)"
  "snd (popResultPipe fd c) = resultPipes c fd"
  by (simp_all add: popResultPipe_def)

lemma chan_send_simps [simp]:
  "calls (state_of (chan_send p v c)) = calls c"
  "pipePool (state_of (chan_send p v c)) = pipePool c"
  "pollerFd (state_of (chan_send p v c)) = pollerFd c"
  "resultPipes (state_of (chan_send p v c)) = resultPipes c"
  by (simp_all add: chan_send_def split: option.splits)

lemma handlePollerEvents_frame:
  "pipePool (state_of (handlePollerEvents events c)) = pipePool c
   \<and> pollerFd (state_of (handlePollerEvents events c)) = pollerFd c
   \<and> (\<exists>xs. calls (state_of (handlePollerEvents events c)) = calls c @ xs
        \<and> set xs \<subseteq> range PopResultPipe)
   \<and> (\<forall>fd. resultPipes c fd = None \<longrightarrow> resultPipes (state_of (handlePollerEvents events c)) fd = None)"
proof (induction events arbitrary: c)
  case Nil
  show ?case by simp
next
  case (Cons ev events)
  obtain c1 r where pop: "popResultPipe (Fd ev) c = (c1, r)"
    by (cases "popResultPipe (Fd ev) c")
  have c1: "pipePool c1 = pipePool c" "pollerFd c1 = pollerFd c"
    "calls c1 = calls c @ [PopResultPipe (Fd ev)]"
    "resultPipes c1 = (resultPipes c)(Fd ev := None)"
    using popResultPipe_simps [of "Fd ev" c] by (simp_all add: pop)
  show ?case
  proof (cases r)
    case None
    then have eq: "handlePollerEvents (ev # events) c = handlePollerEvents events c1"
      by (simp add: pop)
    from Cons.IH [of c1] show ?thesis
      unfolding eq c1 by auto
  next
    case (Some pipe)
    show ?thesis
    proof (cases "chan_send pipe (Err ev) c1")
      case (Done c2)
      then have eq: "handlePollerEvents (ev # events) c = handlePollerEvents events c2"
        by (simp add: pop Some)
      have c2: "pipePool c2 = pipePool c1" "pollerFd c2 = pollerFd c1" "calls c2 = calls c1"
        "resultPipes c2 = resultPipes c1"
        using chan_send_simps [of pipe "Err ev" c1] by (simp_all add: Done)
      from Cons.IH [of c2] show ?thesis
        unfolding eq c2 c1 by auto
    next
      case (Blocked c2)
      then have eq: "handlePollerEvents (ev # events) c = Blocked c2"
        by (simp add: pop Some)
      have c2: "pipePool c2 = pipePool c1" "pollerFd c2 = pollerFd c1" "calls c2 = calls c1"
        "resultPipes c2 = resultPipes c1"
        using chan_send_simps [of pipe "Err ev" c1] by (simp_all add: Blocked)
      show ?thesis
        unfolding eq by (simp add: c2 c1)
    qed
  qed
qed

lemma chan_recv_frame:
  "chan_recv p c = Some (c', v) \<Longrightarrow>
     calls c' = calls c \<and> pipePool c' = pipePool c \<and> pollerFd c' = pollerFd c
     \<and> resultPipes c' = resultPipes c"
  by (auto simp: chan_recv_def split: option.splits)

lemma waitPipeTimeout_frame:
  "pipePool (fst (waitPipeTimeout os p t c)) = pipePool c
   \<and> pollerFd (fst (waitPipeTimeout os p t c)) = pollerFd c
   \<and> (\<exists>xs. calls (fst (waitPipeTimeout os p t c)) = calls c @ TimeAfter t # xs
        \<and> set xs \<subseteq> range PopResultPipe)
   \<and> (\<forall>fd. resultPipes c fd = None \<longrightarrow> resultPipes (fst (waitPipeTimeout os p t c)) fd = None)"
  using handlePollerEvents_frame [of "snd (the (delivery os))" "called (TimeAfter t) c"]
  by (auto simp: waitPipeTimeout_def Let_def split: option.splits prod.splits dest!: chan_recv_frame)

lemma getPipe_simps:
  "calls (fst (getPipe c)) = calls c @ [GetPipe (snd (getPipe c))]"
  "pollerFd (fst (getPipe c)) = pollerFd c"
  "resultPipes (fst (getPipe c)) = resultPipes c"
  "pipePool (fst (getPipe c)) = tl (pipePool c)"
  by (simp_all add: getPipe_def Let_def split: list.splits)

lemma registerResultPipe_simps [simp]:
  "calls (registerResultPipe fd p c) = calls c @ [RegisterResultPipe fd p]"
  "pollerFd (registerResultPipe fd p c) = pollerFd c"
  "pipePool (registerResultPipe fd p c) = pipePool c"
  "resultPipes (registerResultPipe fd p c) = (resultPipes c)(fd \<mapsto> p)"
  "chans (registerResultPipe fd p c) = chans c"
  by (simp_all add: registerResultPipe_def)

lemma waitConnectResult_calls:
  fixes os fd timeout c
  defines "p \<equiv> snd (getPipe c)"
  defines "c' \<equiv> fst (waitConnectResult os fd timeout c)"
  shows "\<exists>mid. calls c' = calls c @ [GetPipe p, RegisterResultPipe fd p, RegisterEvents (pollerFD c) fd]
            @ mid @ [DeregisterResultPipe fd, PutBackPipe p]
          \<and> set mid \<subseteq> range TimeAfter \<union> range PopResultPipe
          \<and> (registerEvents_res os \<noteq> None \<longrightarrow> mid = [])
          \<and> (registerEvents_res os = None \<longrightarrow> (\<exists>xs. mid = TimeAfter timeout # xs))"
    and "pipePool c' = p # tl (pipePool c)"
    and "resultPipes c' fd = None"
    and "pollerFd c' = pollerFd c"
    and "\<forall>k. resultPipes c k = None \<longrightarrow> resultPipes c' k = None"
proof -
  obtain c1 where gp: "getPipe c = (c1, p)"
    by (cases "getPipe c") (simp add: p_def)
  have c1: "calls c1 = calls c @ [GetPipe p]" "pollerFd c1 = pollerFd c"
    "pipePool c1 = tl (pipePool c)" "resultPipes c1 = resultPipes c"
    using getPipe_simps [of c] by (simp_all add: gp)
  define c3 where "c3 = called (RegisterEvents (pollerFD c) fd) (registerResultPipe fd p c1)"
  have c3: "calls c3 = calls c @ [GetPipe p, RegisterResultPipe fd p, RegisterEvents (pollerFD c) fd]"
    "pollerFd c3 = pollerFd c" "pipePool c3 = tl (pipePool c)"
    "resultPipes c3 = (resultPipes c)(fd \<mapsto> p)"
    by (simp_all add: c3_def c1)
  define w where "w = (case registerEvents_res os of
                          Some err \<Rightarrow> (c3, Some err)
                        | None \<Rightarrow> waitPipeTimeout os p timeout c3)"
  have unfold: "waitConnectResult os fd timeout c =
      (putBackPipe p (deregisterResultPipe fd (fst w)), snd w)"
    by (cases "registerEvents_res os")
      (simp_all add: waitConnectResult_def gp Let_def w_def c3_def pollerFD_def c1
        case_prod_beta)
  have c': "c' = putBackPipe p (deregisterResultPipe fd (fst w))"
    by (simp add: c'_def unfold)
  have w: "pipePool (fst w) = tl (pipePool c)" "pollerFd (fst w) = pollerFd c"
    "\<exists>mid. calls (fst w) = calls c3 @ mid
       \<and> set mid \<subseteq> range TimeAfter \<union> range PopResultPipe
       \<and> (registerEvents_res os \<noteq> None \<longrightarrow> mid = [])
       \<and> (registerEvents_res os = None \<longrightarrow> (\<exists>xs. mid = TimeAfter timeout # xs))"
    using waitPipeTimeout_frame [of os p timeout c3]
    by (auto simp: w_def c3 split: option.splits)
  from w(3) obtain mid where mid: "calls (fst w) = calls c3 @ mid"
    "set mid \<subseteq> range TimeAfter \<union> range PopResultPipe"
    "registerEvents_res os \<noteq> None \<longrightarrow> mid = []"
    "registerEvents_res os = None \<longrightarrow> (\<exists>xs. mid = TimeAfter timeout # xs)"
    by (elim exE conjE)
  have cs: "calls c' = calls c @ [GetPipe p, RegisterResultPipe fd p, RegisterEvents (pollerFD c) fd]
            @ mid @ [DeregisterResultPipe fd, PutBackPipe p]"
    by (simp add: c' putBackPipe_def deregisterResultPipe_def mid(1) c3(1))
  show "\<exists>mid. calls c' = calls c @ [GetPipe p, RegisterResultPipe fd p, RegisterEvents (pollerFD c) fd]
            @ mid @ [DeregisterResultPipe fd, PutBackPipe p]
          \<and> set mid \<subseteq> range TimeAfter \<union> range PopResultPipe
          \<and> (registerEvents_res os \<noteq> None \<longrightarrow> mid = [])
          \<and> (registerEvents_res os = None \<longrightarrow> (\<exists>xs. mid = TimeAfter timeout # xs))"
  proof (rule exI [of _ mid], intro conjI)
    show "calls c' = calls c @ [GetPipe p, RegisterResultPipe fd p, RegisterEvents (pollerFD c) fd]
            @ mid @ [DeregisterResultPipe fd, PutBackPipe p]"
      by (fact cs)
    show "set mid \<subseteq> range TimeAfter \<union> range PopResultPipe" by (fact mid(2))
    show "registerEvents_res os \<noteq> None \<longrightarrow> mid = []" by (fact mid(3))
    show "registerEvents_res os = None \<longrightarrow> (\<exists>xs. mid = TimeAfter timeout # xs)" by (fact mid(4))
  qed
  show "pipePool c' = p # tl (pipePool c)"
    by (simp add: c' putBackPipe_def deregisterResultPipe_def w(1))
  show "resultPipes c' fd = None"
    by (simp add: c' putBackPipe_def deregisterResultPipe_def)
  show "pollerFd c' = pollerFd c"
    by (simp add: c' putBackPipe_def deregisterResultPipe_def w(2))
  have "\<forall>k. resultPipes c3 k = None \<longrightarrow> resultPipes (fst w) k = None"
    using waitPipeTimeout_frame [of os p timeout c3]
    by (cases "registerEvents_res os") (simp_all add: w_def)
  then show "\<forall>k. resultPipes c k = None \<longrightarrow> resultPipes c' k = None"
    by (simp add: c' putBackPipe_def deregisterResultPipe_def c3(4))
qed


lemma CheckAddr_pending:
  assumes "parseSockAddr os addr = Inr rAddr" and "socket_res os = (fd, None)"
    and "connect_switch (goos os) (connect_res os) = (False, None)"
  shows "CheckAddr os addr timeout c =
     (let c2 = called (Connect fd rAddr) (called (CloseOnExec fd) (called Socket_AF_INET_SOCK_STREAM c));
          w = waitConnectResult os fd (now_entry os + timeout - now_wait os) c2
      in (called (Close fd) (fst w), snd w))"
  using assms by (simp add: CheckAddr_def createSocket_def connect_def Let_def case_prod_beta)

lemma CheckAddr_sync:
  assumes "parseSockAddr os addr = Inr rAddr" and "socket_res os = (fd, None)"
    and "connect_switch (goos os) (connect_res os) \<noteq> (False, None)"
  shows "calls (fst (CheckAddr os addr timeout c)) =
     calls c @ [Socket_AF_INET_SOCK_STREAM, CloseOnExec fd, Connect fd rAddr, Close fd]"
    and "resultPipes (fst (CheckAddr os addr timeout c)) = resultPipes c"
  using assms
  by (cases "connect_switch (goos os) (connect_res os)";
      cases "snd (connect_switch (goos os) (connect_res os))";
      cases "fst (connect_switch (goos os) (connect_res os))";
      simp add: CheckAddr_def createSocket_def connect_def Let_def)+

lemma getPipe_called [simp]:
  "snd (getPipe (called x c)) = snd (getPipe c)"
  by (simp add: getPipe_def Let_def split: list.splits)

lemma getPipe_empty_slot:
  "\<forall>q\<in>set (pipePool c). chans c q = None \<Longrightarrow> chans (fst (getPipe c)) (snd (getPipe c)) = None"
  by (cases "pipePool c") (simp_all add: getPipe_def Let_def)

lemma waitPipeTimeout_delivered:
  assumes "resultPipes c fd = Some p" and "chans c p = None"
    and "delivery os = Some (d, [Event fd e])" and "int d < timeout"
  shows "snd (waitPipeTimeout os p timeout c) = e"
  using assms
  by (simp add: waitPipeTimeout_def Let_def chan_recv_def chan_send_def popResultPipe_def)

lemma waitPipeTimeout_expired:
  assumes "timeout \<le> 0"
    and "\<not> tie os \<or> (chans c p = None \<and> (\<forall>evs. delivery os \<noteq> Some (0, evs)))"
  shows "waitPipeTimeout os p timeout c = (called (TimeAfter timeout) c, Some ErrTimeout)"
  using assms
  by (auto simp: waitPipeTimeout_def Let_def chan_recv_def max_def
      split: option.splits prod.splits)

lemma waitConnectResult_unfold:
  "waitConnectResult os fd timeout c =
     (let p = snd (getPipe c);
          c3 = called (RegisterEvents (pollerFD c) fd) (registerResultPipe fd p (fst (getPipe c)));
          w = (case registerEvents_res os of
                 Some err \<Rightarrow> (c3, Some err)
               | None \<Rightarrow> waitPipeTimeout os p timeout c3)
      in (putBackPipe p (deregisterResultPipe fd (fst w)), snd w))"
proof -
  obtain c1 p where gp: "getPipe c = (c1, p)"
    by (cases "getPipe c")
  have "pollerFd c1 = pollerFd c"
    using getPipe_simps(2) [of c] by (simp add: gp)
  then show ?thesis
    by (cases "registerEvents_res os")
      (simp_all add: waitConnectResult_def gp Let_def case_prod_beta pollerFD_def)
qed

lemma count_list_append_helper:
  "count_list (xs @ ys) x = count_list xs x + count_list ys x"
  by (induction xs) simp_all

lemma count_list_absent:
  "x \<notin> set xs \<Longrightarrow> count_list xs x = 0"
  by (induction xs) auto

lemma CheckAddr_registry:
  "resultPipes c k = None \<Longrightarrow> resultPipes (fst (CheckAddr os addr timeout c)) k = None"
proof (cases "parseSockAddr os addr")
  case (Inl err)
  assume "resultPipes c k = None"
  then show ?thesis by (simp add: CheckAddr_def Inl)
next
  case (Inr rAddr)
  assume k: "resultPipes c k = None"
  obtain fd serr where sock: "socket_res os = (fd, serr)"
    by (cases "socket_res os")
  show ?thesis
  proof (cases serr)
    case (Some err)
    then show ?thesis using k by (simp add: CheckAddr_def Inr createSocket_def sock)
  next
    case None
    note sock' = sock [unfolded None]
    show ?thesis
    proof (cases "connect_switch (goos os) (connect_res os) = (False, None)")
      case False
      from CheckAddr_sync(2) [OF Inr sock' False, of timeout c] k show ?thesis by simp
    next
      case True
      define c2 where "c2 = called (Connect fd rAddr)
         (called (CloseOnExec fd) (called Socket_AF_INET_SOCK_STREAM c))"
      have "resultPipes c2 k = None" using k by (simp add: c2_def)
      with waitConnectResult_calls(5) [of c2 os fd "now_entry os + timeout - now_wait os"]
      have "resultPipes (fst (waitConnectResult os fd (now_entry os + timeout - now_wait os) c2)) k = None"
        by blast
      then show ?thesis
        by (simp add: CheckAddr_pending [OF Inr sock' True] Let_def c2_def)
    qed
  qed
qed

lemma int32_id:
  "- (2 ^ 31) \<le> x \<Longrightarrow> x < 2 ^ 31 \<Longrightarrow> int32 x = x"
  by (simp add: int32_def signed_take_bit_int_eq_self)

lemma pollingLoop_pollerFd:
  "pollerFd (snd (pollingLoop pfd its c)) = pollerFd c"
proof (induction pfd its c rule: pollingLoop.induct)
  case (3 pfd r its c)
  show ?case
  proof (cases r)
    case (Inl err)
    then show ?thesis by simp
  next
    case (Inr events)
    show ?thesis
    proof (cases "handlePollerEvents events (called (PollEvents pfd) c)")
      case (Done c2)
      with handlePollerEvents_frame [of events "called (PollEvents pfd) c"]
      have "pollerFd c2 = pollerFd c" by simp
      with "3.IH" [OF refl Inr Done] show ?thesis by (simp add: Inr Done)
    next
      case (Blocked c2)
      with handlePollerEvents_frame [of events "called (PollEvents pfd) c"]
      show ?thesis by (simp add: Inr)
    qed
  qed
qed simp_all

lemma pollingLoop_append:
  "fst (pollingLoop pfd its c) = Running \<Longrightarrow>
     pollingLoop pfd (its @ rest) c = pollingLoop pfd rest (snd (pollingLoop pfd its c))"
proof (induction pfd its c rule: pollingLoop.induct)
  case (3 pfd r its c)
  show ?case
  proof (cases r)
    case (Inl err)
    with "3.prems" show ?thesis by simp
  next
    case (Inr events)
    show ?thesis
    proof (cases "handlePollerEvents events (called (PollEvents pfd) c)")
      case (Done c2)
      with "3.prems" have "fst (pollingLoop pfd its c2) = Running" by (simp add: Inr)
      from "3.IH" [OF refl Inr Done this] show ?thesis by (simp add: Inr Done)
    next
      case (Blocked c2)
      with "3.prems" show ?thesis by (simp add: Inr)
    qed
  qed
qed simp_all

lemma CheckingLoop_Running:
  assumes "fst (CheckingLoop res its c) = Running"
  obtains pfd c2 where "res = (pfd, None)" "\<not> pollerFD c > 0"
    "setReady (setPollerFD pfd (called CreatePoller c)) = Some c2"
    "pollingLoop pfd its c2 = (Running, snd (CheckingLoop res its c))"
    "pollerFd c2 = int32 pfd"
proof -
  obtain pfd err where res: "res = (pfd, err)" by (cases res)
  from assms have nl: "\<not> pollerFD c > 0"
    by (auto simp: CheckingLoop_def createPoller_def)
  from assms nl have err: "err = None"
    by (cases err) (auto simp: CheckingLoop_def createPoller_def res Let_def)
  define c1 where "c1 = setPollerFD pfd (called CreatePoller c)"
  have cp: "createPoller res c = (c1, pfd, None)"
    using nl by (simp add: createPoller_def res err c1_def Let_def)
  from assms obtain c2 where sr: "setReady c1 = Some c2"
    by (cases "setReady c1") (auto simp: CheckingLoop_def cp)
  have c2: "pollerFd c2 = int32 pfd"
    using sr by (auto simp: setReady_def c1_def setPollerFD_def split: if_splits)
  obtain r c3 where pl: "pollingLoop pfd its c2 = (r, c3)"
    by (cases "pollingLoop pfd its c2")
  from assms have "r = Running"
    by (cases r) (simp_all add: CheckingLoop_def cp sr pl)
  then have "pollingLoop pfd its c2 = (Running, snd (CheckingLoop res its c))"
    by (simp add: CheckingLoop_def cp sr pl)
  with res err nl sr c2 show thesis
    by (intro that [of pfd c2]) (simp_all add: c1_def)
qed

lemma CheckingLoop_started:
  assumes "\<not> pollerFD c > 0"
    and "setReady (setPollerFD pfd (called CreatePoller c)) = Some c2"
  shows "CheckingLoop (pfd, None) its c =
     (case pollingLoop pfd its c2 of
        (Returned r, c3) \<Rightarrow> (Returned r, closePoller (resetReady c3))
      | (other, c3) \<Rightarrow> (other, c3))"
  using assms by (simp add: CheckingLoop_def createPoller_def Let_def)

lemma stop_simps:
  shows "pollerFD (closePoller (resetReady x)) = - 1"
    and "WaitReady_blocks (closePoller (resetReady x))"
    and "WaitReady (closePoller (resetReady x)) \<noteq> WaitReady x"
    and "calls (closePoller (resetReady x))
           = calls x @ (if 0 < pollerFd x then [Close (pollerFd x)] else [])"
  by (simp_all add: closePoller_def resetReady_def pollerFD_def setPollerFD_def int32_id
      WaitReady_blocks_def WaitReady_def called_def)




lemma lone_waiter_timeout:
  assumes "waiters s = [w]" and "w_stage w = W_start"
    and "registerEvents_res os = None" and "delivery os = None"
    and "\<forall>q\<in>set (pipePool (shared s)). chans (shared s) q = None"
  shows "map_option shared
           (run [Acquire 0, Register 0, RegisterEv 0, Timeout 0, Deregister 0, PutBack 0] s)
         = Some (fst (waitConnectResult os (w_fd w) (w_timeout w) (shared s)))"
proof -
  define c where "c = shared s"
  define p where "p = snd (getPipe c)"
  define c3 where "c3 = called (RegisterEvents (pollerFD c) (w_fd w))
      (registerResultPipe (w_fd w) p (fst (getPipe c)))"
  have empty: "chans c3 p = None"
    using assms(5) getPipe_empty_slot [of c] by (simp add: c3_def p_def c_def)
  have wp: "waitPipeTimeout os p (w_timeout w) c3
      = (called (TimeAfter (w_timeout w)) c3, Some ErrTimeout)"
    using empty assms(4) by (simp add: waitPipeTimeout_def Let_def chan_recv_def)
  have seq: "fst (waitConnectResult os (w_fd w) (w_timeout w) c)
      = putBackPipe p (deregisterResultPipe (w_fd w) (called (TimeAfter (w_timeout w)) c3))"
    using assms(3) wp
    by (simp add: waitConnectResult_unfold Let_def p_def [symmetric] c3_def [symmetric])
  obtain c1 where gp: "getPipe c = (c1, p)"
    by (cases "getPipe c") (simp add: p_def)
  have pfd: "pollerFD (registerResultPipe (w_fd w) p c1) = pollerFD c"
    using getPipe_simps(2) [of c] by (simp add: pollerFD_def gp)
  have "map_option shared
      (run [Acquire 0, Register 0, RegisterEv 0, Timeout 0, Deregister 0, PutBack 0] s)
      = Some (putBackPipe p (deregisterResultPipe (w_fd w) (called (TimeAfter (w_timeout w)) c3)))"
    using assms(1,2)
    by (simp add: waiter_step_def set_stage_def Let_def c_def [symmetric] c3_def gp pfd)
  with seq show ?thesis by (simp add: c_def)
qed

subsection \<open>A poller handle that is positive\<close>

text \<open>
  When the recorded handle is positive, a \<open>CheckingLoop\<close> call returns at once
  \<open>ErrCheckerAlreadyStarted\<close>, wrapped with the message "error creating poller", and
  leaves the whole state as it was. While a loop runs on a positive handle, the recorded
  handle is that handle.
\<close>

lemma refused_on_positive_handle:
  assumes "pollerFD c > 0"
  shows "CheckingLoop res its c =
           (Returned (Some (Wrap ErrCheckerAlreadyStarted ''error creating poller'')), c)
         \<and> Cause (Wrap ErrCheckerAlreadyStarted ''error creating poller'')
             = ErrCheckerAlreadyStarted
         \<and> (\<forall>pfd its0 c0. fst (CheckingLoop (pfd, None) its0 c0) = Running \<and> 0 < int32 pfd
              \<longrightarrow> pollerFD (snd (CheckingLoop (pfd, None) its0 c0)) = int32 pfd)"
proof (intro conjI allI impI)
  show "CheckingLoop res its c =
      (Returned (Some (Wrap ErrCheckerAlreadyStarted ''error creating poller'')), c)"
    using assms by (simp add: CheckingLoop_def createPoller_def)
  show "Cause (Wrap ErrCheckerAlreadyStarted ''error creating poller'') = ErrCheckerAlreadyStarted"
    by simp
next
  fix pfd its0 c0
  assume a: "fst (CheckingLoop (pfd, None) its0 c0) = Running \<and> 0 < int32 pfd"
  then have "fst (CheckingLoop (pfd, None) its0 c0) = Running" by simp
  then obtain pfd' c2 where r: "(pfd, None :: error option) = (pfd', None)"
    "pollingLoop pfd' its0 c2 = (Running, snd (CheckingLoop (pfd, None) its0 c0))"
    "pollerFd c2 = int32 pfd'"
    by (rule CheckingLoop_Running)
  from pollingLoop_pollerFd [of pfd' its0 c2] r
  show "pollerFD (snd (CheckingLoop (pfd, None) its0 c0)) = int32 pfd"
    by (simp add: pollerFD_def)
qed

text \<open>
  A running \<open>CheckingLoop\<close> call that finds the context cancelled in its next iteration
  returns \<open>nil\<close>, one in which \<open>pollEvents\<close> fails returns the wrapped error; the deferred
  calls set the recorded handle to \<open>-1\<close> and install a new, open \<open>isReady\<close> channel, and
  they close the poller handle when it is a positive descriptor.
\<close>

lemma stops_on_positive_handle:
  assumes "fst (CheckingLoop (pfd, None) its c) = Running"
  shows "(let c1 = snd (CheckingLoop (pfd, None) its c);
              c' = closePoller (resetReady c1)
          in CheckingLoop (pfd, None) (its @ CtxDone # rest) c = (Returned None, c')
             \<and> pollerFD c' = - 1 \<and> WaitReady_blocks c' \<and> WaitReady c' \<noteq> WaitReady c1
             \<and> (0 < pfd \<and> pfd < 2 ^ 31 \<longrightarrow> calls c' = calls c1 @ [Close pfd]))
       \<and> (let c1 = called (PollEvents pfd) (snd (CheckingLoop (pfd, None) its c));
              c' = closePoller (resetReady c1)
          in CheckingLoop (pfd, None) (its @ Poll (Inl err) # rest) c
               = (Returned (Some (Wrap err ''error during polling loop'')), c')
             \<and> pollerFD c' = - 1 \<and> WaitReady_blocks c' \<and> WaitReady c' \<noteq> WaitReady c1
             \<and> (0 < pfd \<and> pfd < 2 ^ 31 \<longrightarrow> calls c' = calls c1 @ [Close pfd]))"
proof -
  define c1 where "c1 = snd (CheckingLoop (pfd, None) its c)"
  from assms(1) obtain pfd' c2 where r: "(pfd, None :: error option) = (pfd', None)"
    "\<not> pollerFD c > 0"
    "setReady (setPollerFD pfd' (called CreatePoller c)) = Some c2"
    "pollingLoop pfd' its c2 = (Running, snd (CheckingLoop (pfd, None) its c))"
    "pollerFd c2 = int32 pfd'"
    by (rule CheckingLoop_Running)
  from r(1) have pfd': "pfd' = pfd" by simp
  note r = r(2-5) [unfolded pfd' c1_def [symmetric]]
  have run: "fst (pollingLoop pfd its c2) = Running" "snd (pollingLoop pfd its c2) = c1"
    using r(3) by simp_all
  have fd1: "pollerFd c1 = int32 pfd"
    using pollingLoop_pollerFd [of pfd its c2] run(2) r(4) by simp
  have cancel: "CheckingLoop (pfd, None) (its @ CtxDone # rest) c
      = (Returned None, closePoller (resetReady c1))"
    by (simp add: CheckingLoop_started [OF r(1,2)] pollingLoop_append [OF run(1)] run(2))
  have fail: "CheckingLoop (pfd, None) (its @ Poll (Inl err) # rest) c
      = (Returned (Some (Wrap err ''error during polling loop'')),
         closePoller (resetReady (called (PollEvents pfd) c1)))"
    by (simp add: CheckingLoop_started [OF r(1,2)] pollingLoop_append [OF run(1)] run(2))
  have close: "0 < pfd \<and> pfd < 2 ^ 31 \<longrightarrow>
      calls (closePoller (resetReady c1)) = calls c1 @ [Close pfd]
      \<and> calls (closePoller (resetReady (called (PollEvents pfd) c1)))
          = calls (called (PollEvents pfd) c1) @ [Close pfd]"
    using stop_simps(4) [of c1] stop_simps(4) [of "called (PollEvents pfd) c1"]
    by (simp add: fd1 int32_id)
  show ?thesis
    unfolding Let_def c1_def [symmetric]
    using cancel fail close stop_simps(1,2,3) [of c1]
      stop_simps(1,2,3) [of "called (PollEvents pfd) c1"]
    by simp
qed

subsection \<open>The claims\<close>

text \<open>
  C1. For every result \<open>serr\<close> of the OS connect call: the attempt is pending
  (\<open>success = false\<close>, \<open>err = nil\<close>) exactly when \<open>serr\<close> is \<open>EALREADY\<close>, \<open>EINPROGRESS\<close> or
  \<open>EINTR\<close>; it is a success (\<open>success = true\<close>, \<open>err = nil\<close>) exactly when \<open>serr\<close> is \<open>nil\<close>
  or \<open>EISCONN\<close>, or \<open>EINVAL\<close> on Solaris; in every other case it is a failure that carries
  \<open>serr\<close> itself.
\<close>

theorem connect_outcome_mapping:
  "(connect_switch platform serr = (False, None)) =
     (serr \<in> {Some EALREADY, Some EINPROGRESS, Some EINTR})
   \<and> (connect_switch platform serr = (True, None)) =
     (serr = None \<or> serr = Some EISCONN \<or> (serr = Some EINVAL \<and> platform = ''solaris''))
   \<and> (connect_switch platform serr = (False, serr)) =
     (serr \<notin> {Some EALREADY, Some EINPROGRESS, Some EINTR, None, Some EISCONN}
      \<and> (serr = Some EINVAL \<longrightarrow> platform \<noteq> ''solaris''))"
  by (cases "(platform, serr)" rule: connect_switch.cases) auto

theorem connect_outcome_mapping_witness:
  "connect_switch ''solaris'' (Some EINVAL) = (True, None)
   \<and> connect_switch ''linux'' (Some EINVAL) = (False, Some EINVAL)
   \<and> connect_switch ''linux'' (Some EINTR) = (False, None)
   \<and> connect_switch ''linux'' (Some (Errno 111)) = (False, Some (Errno 111))"
  using connect_outcome_mapping [of "''solaris''" "Some EINVAL"]
    connect_outcome_mapping [of "''linux''" "Some EINVAL"]
    connect_outcome_mapping [of "''linux''" "Some EINTR"]
    connect_outcome_mapping [of "''linux''" "Some (Errno 111)"]
  by simp

text \<open>
  C3. When socket creation succeeds, \<open>CheckAddr\<close> closes the descriptor as its last
  action on every return path (synchronous success, synchronous error, delivered result,
  failed poller registration, timeout): the calls it makes are the socket creation, the
  connect attempt, calls among which there is no \<open>unix.Close\<close>, and then \<open>unix.Close(fd)\<close>.
  \<open>connect\<close> itself makes one call, \<open>unix.Connect\<close>.
\<close>

theorem CheckAddr_closes_descriptor:
  assumes "parseSockAddr os addr = Inr rAddr" and "socket_res os = (fd, None)"
  shows "(\<exists>mid. calls (fst (CheckAddr os addr timeout c)) =
            calls c @ [Socket_AF_INET_SOCK_STREAM, CloseOnExec fd, Connect fd rAddr] @ mid @ [Close fd]
          \<and> (\<forall>x. Close x \<notin> set mid))
       \<and> calls (fst (connect os fd rAddr c)) = calls c @ [Connect fd rAddr]"
proof (intro conjI)
  show "calls (fst (connect os fd rAddr c)) = calls c @ [Connect fd rAddr]"
    by (simp add: connect_def)
  show "\<exists>mid. calls (fst (CheckAddr os addr timeout c)) =
            calls c @ [Socket_AF_INET_SOCK_STREAM, CloseOnExec fd, Connect fd rAddr] @ mid @ [Close fd]
          \<and> (\<forall>x. Close x \<notin> set mid)"
  proof (cases "connect_switch (goos os) (connect_res os) = (False, None)")
    case False
    from CheckAddr_sync(1) [OF assms False, of timeout c]
    show ?thesis by (intro exI [of _ "[]"]) simp
  next
    case True
    define c2 where "c2 = called (Connect fd rAddr)
       (called (CloseOnExec fd) (called Socket_AF_INET_SOCK_STREAM c))"
    define t where "t = now_entry os + timeout - now_wait os"
    define p where "p = snd (getPipe c2)"
    from waitConnectResult_calls(1) [of os fd t c2]
    obtain mid where mid: "calls (fst (waitConnectResult os fd t c2)) =
        calls c2 @ [GetPipe p, RegisterResultPipe fd p, RegisterEvents (pollerFD c2) fd]
          @ mid @ [DeregisterResultPipe fd, PutBackPipe p]"
      "set mid \<subseteq> range TimeAfter \<union> range PopResultPipe"
      unfolding p_def by (elim exE conjE)
    have "calls (fst (CheckAddr os addr timeout c)) =
        calls c @ [Socket_AF_INET_SOCK_STREAM, CloseOnExec fd, Connect fd rAddr]
          @ ([GetPipe p, RegisterResultPipe fd p, RegisterEvents (pollerFD c2) fd]
               @ mid @ [DeregisterResultPipe fd, PutBackPipe p]) @ [Close fd]"
      by (simp add: CheckAddr_pending [OF assms True] Let_def mid(1) c2_def [symmetric]
          t_def [symmetric]) (simp add: c2_def)
    moreover have "\<forall>x. Close x \<notin> set ([GetPipe p, RegisterResultPipe fd p,
        RegisterEvents (pollerFD c2) fd] @ mid @ [DeregisterResultPipe fd, PutBackPipe p])"
      using mid(2) by auto
    ultimately show ?thesis by blast
  qed
qed

theorem CheckAddr_closes_descriptor_witness:
  "parseSockAddr os_example ''10.0.0.1:80'' = Inr (SockaddrInet4 80 [10, 0, 0, 1])
   \<and> socket_res os_example = (5, None)
   \<and> (\<exists>mid. calls (fst (CheckAddr os_example ''10.0.0.1:80'' 1000 NewChecker)) =
         calls NewChecker @ [Socket_AF_INET_SOCK_STREAM, CloseOnExec 5,
           Connect 5 (SockaddrInet4 80 [10, 0, 0, 1])] @ mid @ [Close 5]
        \<and> (\<forall>x. Close x \<notin> set mid))"
proof -
  have h1: "parseSockAddr os_example ''10.0.0.1:80'' = Inr (SockaddrInet4 80 [10, 0, 0, 1])"
    by (simp add: os_example_def)
  have h2: "socket_res os_example = (5, None)"
    by (simp add: os_example_def)
  from CheckAddr_closes_descriptor [OF h1 h2, of 1000 NewChecker] h1 h2
  show ?thesis by blast
qed

text \<open>
  C5. \<open>waitConnectResult\<close> stores the delivery channel in the Completion Registry before
  it registers the descriptor with the Poller: its first three calls are \<open>getPipe\<close>,
  \<open>registerResultPipe(fd, pipe)\<close> and \<open>registerEvents(pollerFD, fd)\<close>, in this order, and
  the descriptor is not registered with the Poller again; the registry maps the
  descriptor to the channel in the state in which \<open>registerEvents\<close> is called; and a
  readiness event for the descriptor that the polling loop handles at any time after the
  registration and before the timer fires, however early, reaches the waiter.
\<close>

theorem registry_before_poller:
  "(\<exists>rest. calls (fst (waitConnectResult os fd timeout c)) =
       calls c @ [GetPipe (snd (getPipe c)), RegisterResultPipe fd (snd (getPipe c)),
                  RegisterEvents (pollerFD c) fd] @ rest
     \<and> (\<forall>pfd. RegisterEvents pfd fd \<notin> set rest))
   \<and> resultPipes (registerResultPipe fd (snd (getPipe c)) (fst (getPipe c))) fd
       = Some (snd (getPipe c))
   \<and> (registerEvents_res os = None \<and> delivery os = Some (d, [Event fd e]) \<and> int d < timeout
       \<and> (\<forall>q\<in>set (pipePool c). chans c q = None)
       \<longrightarrow> snd (waitConnectResult os fd timeout c) = e)"
proof (intro conjI impI)
  from waitConnectResult_calls(1) [of os fd timeout c]
  obtain mid where mid: "calls (fst (waitConnectResult os fd timeout c)) =
      calls c @ [GetPipe (snd (getPipe c)), RegisterResultPipe fd (snd (getPipe c)),
        RegisterEvents (pollerFD c) fd]
        @ mid @ [DeregisterResultPipe fd, PutBackPipe (snd (getPipe c))]"
    "set mid \<subseteq> range TimeAfter \<union> range PopResultPipe"
    by (elim exE conjE)
  have "\<forall>pfd. RegisterEvents pfd fd \<notin>
      set (mid @ [DeregisterResultPipe fd, PutBackPipe (snd (getPipe c))])"
    using mid(2) by auto
  with mid(1) show "\<exists>rest. calls (fst (waitConnectResult os fd timeout c)) =
       calls c @ [GetPipe (snd (getPipe c)), RegisterResultPipe fd (snd (getPipe c)),
                  RegisterEvents (pollerFD c) fd] @ rest
     \<and> (\<forall>pfd. RegisterEvents pfd fd \<notin> set rest)"
    by blast
next
  show "resultPipes (registerResultPipe fd (snd (getPipe c)) (fst (getPipe c))) fd
       = Some (snd (getPipe c))"
    by simp
next
  assume a: "registerEvents_res os = None \<and> delivery os = Some (d, [Event fd e])
      \<and> int d < timeout \<and> (\<forall>q\<in>set (pipePool c). chans c q = None)"
  define p where "p = snd (getPipe c)"
  define c3 where "c3 = called (RegisterEvents (pollerFD c) fd)
      (registerResultPipe fd p (fst (getPipe c)))"
  have "resultPipes c3 fd = Some p"
    by (simp add: c3_def)
  moreover have "chans c3 p = None"
    using a getPipe_empty_slot [of c] by (simp add: c3_def p_def)
  ultimately have "snd (waitPipeTimeout os p timeout c3) = e"
    using a by (intro waitPipeTimeout_delivered [of c3 fd p os d e timeout]) simp_all
  then show "snd (waitConnectResult os fd timeout c) = e"
    using a by (simp add: waitConnectResult_unfold Let_def p_def c3_def)
qed

theorem registry_before_poller_witness:
  "registerEvents_res os_example = None \<and> delivery os_example = Some (100, [Event 5 None])
   \<and> int 100 < 500 \<and> pipePool NewChecker = []
   \<and> snd (waitConnectResult os_example 5 500 NewChecker) = None"
proof -
  have h: "registerEvents_res os_example = None \<and> delivery os_example = Some (100, [Event 5 None])
      \<and> int 100 < 500 \<and> (\<forall>q\<in>set (pipePool NewChecker). chans NewChecker q = None)"
    by (simp add: os_example_def NewChecker_def)
  have "pipePool NewChecker = []"
    by (simp add: NewChecker_def)
  with registry_before_poller [of os_example 5 500 NewChecker 100 None] h
  show ?thesis by blast
qed

text \<open>
  C10. On every exit path of \<open>waitConnectResult\<close> (result delivered, timeout, failed
  poller registration) the deferred function runs last: the call ends with
  \<open>deregisterResultPipe(fd)\<close> and \<open>putBackPipe(resultPipe)\<close>, each made exactly once, for
  the one channel taken with \<open>getPipe\<close>. Afterwards the registry has no entry for the
  descriptor and the channel is at the head of the pool. Deregistering a descriptor
  that has no entry (it was popped) leaves the registry as it is. A \<open>CheckAddr\<close> call
  leaves no registry entry behind that was not there before it.
\<close>

theorem waitConnectResult_cleanup:
  "(let p = snd (getPipe c);
        c' = fst (waitConnectResult os fd timeout c);
        new = drop (length (calls c)) (calls c')
    in resultPipes c' fd = None
       \<and> pipePool c' = p # tl (pipePool c)
       \<and> count_list new (GetPipe p) = 1
       \<and> count_list new (DeregisterResultPipe fd) = 1
       \<and> count_list new (PutBackPipe p) = 1
       \<and> (\<exists>xs. new = xs @ [DeregisterResultPipe fd, PutBackPipe p]))
   \<and> (resultPipes c fd = None \<longrightarrow>
         resultPipes (deregisterResultPipe fd c) = resultPipes c)
   \<and> (\<forall>k. resultPipes c k = None \<longrightarrow>
         resultPipes (fst (CheckAddr os addr timeout c)) k = None)"
proof (intro conjI allI impI)
  fix k assume "resultPipes c k = None"
  then show "resultPipes (fst (CheckAddr os addr timeout c)) k = None"
    by (rule CheckAddr_registry)
next
  assume "resultPipes c fd = None"
  then show "resultPipes (deregisterResultPipe fd c) = resultPipes c"
    by (simp add: deregisterResultPipe_def fun_upd_idem)
next
  define p where "p = snd (getPipe c)"
  define c' where "c' = fst (waitConnectResult os fd timeout c)"
  define new where "new = drop (length (calls c)) (calls c')"
  from waitConnectResult_calls(1) [of os fd timeout c]
  obtain mid where mid: "calls c' =
      calls c @ [GetPipe p, RegisterResultPipe fd p, RegisterEvents (pollerFD c) fd]
        @ mid @ [DeregisterResultPipe fd, PutBackPipe p]"
    "set mid \<subseteq> range TimeAfter \<union> range PopResultPipe"
    unfolding p_def c'_def by (elim exE conjE)
  have new: "new = [GetPipe p, RegisterResultPipe fd p, RegisterEvents (pollerFD c) fd]
        @ mid @ [DeregisterResultPipe fd, PutBackPipe p]"
    by (simp add: new_def mid(1))
  have absent: "GetPipe p \<notin> set mid" "DeregisterResultPipe fd \<notin> set mid"
    "PutBackPipe p \<notin> set mid"
    using mid(2) by auto
  have "resultPipes c' fd = None" "pipePool c' = p # tl (pipePool c)"
    using waitConnectResult_calls(2,3) [of os fd timeout c] by (simp_all add: c'_def p_def)
  moreover have "count_list new (GetPipe p) = 1" "count_list new (DeregisterResultPipe fd) = 1"
    "count_list new (PutBackPipe p) = 1"
    by (simp_all add: new count_list_append_helper count_list_absent absent)
  moreover have "\<exists>xs. new = xs @ [DeregisterResultPipe fd, PutBackPipe p]"
    unfolding new by (rule exI [of _ "[GetPipe p, RegisterResultPipe fd p,
      RegisterEvents (pollerFD c) fd] @ mid"]) simp
  ultimately show "let p = snd (getPipe c);
        c' = fst (waitConnectResult os fd timeout c);
        new = drop (length (calls c)) (calls c')
    in resultPipes c' fd = None
       \<and> pipePool c' = p # tl (pipePool c)
       \<and> count_list new (GetPipe p) = 1
       \<and> count_list new (DeregisterResultPipe fd) = 1
       \<and> count_list new (PutBackPipe p) = 1
       \<and> (\<exists>xs. new = xs @ [DeregisterResultPipe fd, PutBackPipe p])"
    unfolding Let_def p_def [symmetric] c'_def [symmetric] new_def [symmetric] by blast
qed

theorem waitConnectResult_cleanup_witness:
  "resultPipes NewChecker 5 = None
   \<and> resultPipes (fst (CheckAddr os_example ''10.0.0.1:80'' 1000 NewChecker)) 5 = None"
proof -
  have h: "resultPipes NewChecker 5 = None"
    by (simp add: NewChecker_def)
  from waitConnectResult_cleanup [of NewChecker os_example 5 1000 "''10.0.0.1:80''"] h
  show ?thesis by blast
qed

text \<open>
  C2. The claim fails on the code: \<open>CheckAddr\<close> issues the connect attempt on a socket
  for which neither \<open>unix.SetNonblock\<close> nor \<open>unix.SetsockoptInt\<close> was called, since
  nothing calls \<open>setSockOpts\<close>. The calls of one check whose connect attempt is in
  progress, in order:
\<close>

theorem CheckAddr_sets_no_socket_options:
  "calls (fst (CheckAddr os_example ''10.0.0.1:80'' 1000 NewChecker)) =
     [Socket_AF_INET_SOCK_STREAM, CloseOnExec 5, Connect 5 (SockaddrInet4 80 [10, 0, 0, 1]),
      GetPipe 0, RegisterResultPipe 5 0, RegisterEvents (- 1) 5, TimeAfter 500,
      PopResultPipe 5, DeregisterResultPipe 5, PutBackPipe 0, Close 5]
   \<and> SetNonblock 5 True \<notin> set (calls (fst (CheckAddr os_example ''10.0.0.1:80'' 1000 NewChecker)))
   \<and> SetsockoptInt_TCP_QUICKACK 5 0 \<notin>
        set (calls (fst (CheckAddr os_example ''10.0.0.1:80'' 1000 NewChecker)))"
proof -
  have "calls (fst (CheckAddr os_example ''10.0.0.1:80'' 1000 NewChecker)) =
     [Socket_AF_INET_SOCK_STREAM, CloseOnExec 5, Connect 5 (SockaddrInet4 80 [10, 0, 0, 1]),
      GetPipe 0, RegisterResultPipe 5 0, RegisterEvents (- 1) 5, TimeAfter 500,
      PopResultPipe 5, DeregisterResultPipe 5, PutBackPipe 0, Close 5]"
    by (simp add: CheckAddr_def os_example_def NewChecker_def createSocket_def connect_def
        waitConnectResult_def getPipe_def registerResultPipe_def pollerFD_def
        waitPipeTimeout_def chan_recv_def chan_send_def popResultPipe_def
        deregisterResultPipe_def putBackPipe_def called_def Let_def)
  then show ?thesis by simp
qed

text \<open>
  C9. The claim fails on the code where the poller registration fails: with the budget
  exhausted (deadline 1000, clock 1500) and \<open>registerEvents\<close> returning an error,
  \<open>CheckAddr\<close> returns that error, not \<open>ErrTimeout\<close>.
\<close>

theorem CheckAddr_exhausted_budget_counterexample:
  "parseSockAddr (os_example\<lparr>registerEvents_res := Some (Syscall (Errno 9))\<rparr>) ''10.0.0.1:80''
     = Inr (SockaddrInet4 80 [10, 0, 0, 1])
   \<and> socket_res (os_example\<lparr>registerEvents_res := Some (Syscall (Errno 9))\<rparr>) = (5, None)
   \<and> connect_switch (goos (os_example\<lparr>registerEvents_res := Some (Syscall (Errno 9))\<rparr>))
        (connect_res (os_example\<lparr>registerEvents_res := Some (Syscall (Errno 9))\<rparr>)) = (False, None)
   \<and> now_entry (os_example\<lparr>registerEvents_res := Some (Syscall (Errno 9))\<rparr>) + 0
        - now_wait (os_example\<lparr>registerEvents_res := Some (Syscall (Errno 9))\<rparr>) \<le> 0
   \<and> snd (CheckAddr (os_example\<lparr>registerEvents_res := Some (Syscall (Errno 9))\<rparr>)
        ''10.0.0.1:80'' 0 NewChecker) = Some (Syscall (Errno 9))
   \<and> snd (CheckAddr (os_example\<lparr>registerEvents_res := Some (Syscall (Errno 9))\<rparr>)
        ''10.0.0.1:80'' 0 NewChecker) \<noteq> Some ErrTimeout"
  by (simp add: CheckAddr_def os_example_def NewChecker_def createSocket_def connect_def
      waitConnectResult_def getPipe_def registerResultPipe_def pollerFD_def
      deregisterResultPipe_def putBackPipe_def called_def Let_def)

text \<open>
  C9, amended. \<open>CheckAddr\<close> fixes the deadline at entry and starts the timer of the
  pending path with the time that remains to it, \<open>deadline - now\<close>. When the connect
  attempt is pending and nothing remains of the budget: if the poller registration
  succeeds, and \<open>select\<close> does not find a value on the channel that it prefers to the
  expired timer, \<open>CheckAddr\<close> returns \<open>ErrTimeout\<close>; if the registration fails it returns
  the error of the registration. In both cases the channel was registered, the entry is
  deregistered, the channel is put back and the descriptor is closed.
\<close>

theorem CheckAddr_exhausted_budget:
  assumes "parseSockAddr os addr = Inr rAddr" and "socket_res os = (fd, None)"
    and "connect_switch (goos os) (connect_res os) = (False, None)"
    and "now_entry os + timeout - now_wait os \<le> 0"
  shows "(registerEvents_res os = None
          \<and> (\<not> tie os \<or> ((\<forall>q\<in>set (pipePool c). chans c q = None)
                \<and> (\<forall>evs. delivery os \<noteq> Some (0, evs))))
          \<longrightarrow> snd (CheckAddr os addr timeout c) = Some ErrTimeout
            \<and> calls (fst (CheckAddr os addr timeout c)) =
                calls c @ [Socket_AF_INET_SOCK_STREAM, CloseOnExec fd, Connect fd rAddr,
                  GetPipe (snd (getPipe c)), RegisterResultPipe fd (snd (getPipe c)),
                  RegisterEvents (pollerFD c) fd,
                  TimeAfter (now_entry os + timeout - now_wait os),
                  DeregisterResultPipe fd, PutBackPipe (snd (getPipe c)), Close fd])
       \<and> (\<forall>err. registerEvents_res os = Some err
          \<longrightarrow> snd (CheckAddr os addr timeout c) = Some err
            \<and> calls (fst (CheckAddr os addr timeout c)) =
                calls c @ [Socket_AF_INET_SOCK_STREAM, CloseOnExec fd, Connect fd rAddr,
                  GetPipe (snd (getPipe c)), RegisterResultPipe fd (snd (getPipe c)),
                  RegisterEvents (pollerFD c) fd,
                  DeregisterResultPipe fd, PutBackPipe (snd (getPipe c)), Close fd])"
proof (intro conjI allI impI)
  define c2 where "c2 = called (Connect fd rAddr)
     (called (CloseOnExec fd) (called Socket_AF_INET_SOCK_STREAM c))"
  define t where "t = now_entry os + timeout - now_wait os"
  define p where "p = snd (getPipe c)"
  have p: "snd (getPipe c2) = p"
    by (simp add: c2_def p_def)
  have c2: "calls c2 = calls c @ [Socket_AF_INET_SOCK_STREAM, CloseOnExec fd, Connect fd rAddr]"
    "pollerFD c2 = pollerFD c" "pipePool c2 = pipePool c" "chans c2 = chans c"
    by (simp_all add: c2_def pollerFD_def)
  have ca: "CheckAddr os addr timeout c =
      (called (Close fd) (fst (waitConnectResult os fd t c2)), snd (waitConnectResult os fd t c2))"
    by (simp add: CheckAddr_pending [OF assms(1,2,3)] Let_def c2_def t_def)
  define c3 where "c3 = called (RegisterEvents (pollerFD c) fd)
      (registerResultPipe fd p (fst (getPipe c2)))"
  have c3: "calls c3 = calls c2 @ [GetPipe p, RegisterResultPipe fd p, RegisterEvents (pollerFD c) fd]"
    using getPipe_simps(1) [of c2] by (simp add: c3_def p)
  {
    fix err assume "registerEvents_res os = Some err"
    then have "waitConnectResult os fd t c2 =
        (putBackPipe p (deregisterResultPipe fd c3), Some err)"
      by (simp add: waitConnectResult_unfold Let_def p c2(2) c3_def)
    then show "snd (CheckAddr os addr timeout c) = Some err"
      and "calls (fst (CheckAddr os addr timeout c)) =
          calls c @ [Socket_AF_INET_SOCK_STREAM, CloseOnExec fd, Connect fd rAddr,
            GetPipe (snd (getPipe c)), RegisterResultPipe fd (snd (getPipe c)),
            RegisterEvents (pollerFD c) fd,
            DeregisterResultPipe fd, PutBackPipe (snd (getPipe c)), Close fd]"
      by (simp_all add: ca putBackPipe_def deregisterResultPipe_def c3 c2(1) p_def)
  }
  {
    assume a: "registerEvents_res os = None
          \<and> (\<not> tie os \<or> ((\<forall>q\<in>set (pipePool c). chans c q = None)
                \<and> (\<forall>evs. delivery os \<noteq> Some (0, evs))))"
    have "(\<forall>q\<in>set (pipePool c). chans c q = None) \<Longrightarrow> chans c3 p = None"
      using getPipe_empty_slot [of c2] by (simp add: c3_def p c2(3,4))
    with a have "\<not> tie os \<or> (chans c3 p = None \<and> (\<forall>evs. delivery os \<noteq> Some (0, evs)))"
      by blast
    with assms(4) have "waitPipeTimeout os p t c3 = (called (TimeAfter t) c3, Some ErrTimeout)"
      by (intro waitPipeTimeout_expired) (simp_all add: t_def)
    with a have "waitConnectResult os fd t c2 =
        (putBackPipe p (deregisterResultPipe fd (called (TimeAfter t) c3)), Some ErrTimeout)"
      by (simp add: waitConnectResult_unfold Let_def p c2(2) c3_def)
    then show "snd (CheckAddr os addr timeout c) = Some ErrTimeout"
      and "calls (fst (CheckAddr os addr timeout c)) =
          calls c @ [Socket_AF_INET_SOCK_STREAM, CloseOnExec fd, Connect fd rAddr,
            GetPipe (snd (getPipe c)), RegisterResultPipe fd (snd (getPipe c)),
            RegisterEvents (pollerFD c) fd,
            TimeAfter (now_entry os + timeout - now_wait os),
            DeregisterResultPipe fd, PutBackPipe (snd (getPipe c)), Close fd]"
      by (simp_all add: ca putBackPipe_def deregisterResultPipe_def c3 c2(1) p_def t_def)
  }
qed

theorem CheckAddr_exhausted_budget_witness:
  "parseSockAddr os_example ''10.0.0.1:80'' = Inr (SockaddrInet4 80 [10, 0, 0, 1])
   \<and> socket_res os_example = (5, None)
   \<and> connect_switch (goos os_example) (connect_res os_example) = (False, None)
   \<and> now_entry os_example + 0 - now_wait os_example \<le> 0
   \<and> registerEvents_res os_example = None \<and> \<not> tie os_example
   \<and> snd (CheckAddr os_example ''10.0.0.1:80'' 0 NewChecker) = Some ErrTimeout"
proof -
  have h1: "parseSockAddr os_example ''10.0.0.1:80'' = Inr (SockaddrInet4 80 [10, 0, 0, 1])"
    and h2: "socket_res os_example = (5, None)"
    and h3: "connect_switch (goos os_example) (connect_res os_example) = (False, None)"
    and h4: "now_entry os_example + 0 - now_wait os_example \<le> 0"
    and h5: "registerEvents_res os_example = None" "\<not> tie os_example"
    by (simp_all add: os_example_def)
  from CheckAddr_exhausted_budget [OF h1 h2 h3 h4, of NewChecker] h1 h2 h3 h4 h5
  show ?thesis by blast
qed

text \<open>
  C4. The claim fails on the code when the live poller handle is the descriptor 0:
  \<open>createPoller\<close> tests \<open>pollerFD() > 0\<close>, while the value for "not running" is \<open>-1\<close>.
  A first loop runs on the handle 0 and has closed \<open>isReady\<close>. A second \<open>CheckingLoop\<close>
  call on this state is not refused: it creates a second poller, panics in \<open>setReady\<close>
  on the closed channel, and its deferred \<open>closePoller\<close> closes the new poller and sets
  the recorded handle, that of the first loop, to \<open>-1\<close>.
\<close>

theorem second_CheckingLoop_on_handle_zero:
  "fst (CheckingLoop (0, None) [Poll (Inr [])] NewChecker) = Running
   \<and> pollerFD (snd (CheckingLoop (0, None) [Poll (Inr [])] NewChecker)) = 0
   \<and> isReady_closed (snd (CheckingLoop (0, None) [Poll (Inr [])] NewChecker))
   \<and> fst (CheckingLoop (4, None) [CtxDone]
            (snd (CheckingLoop (0, None) [Poll (Inr [])] NewChecker))) = Panicked
   \<and> calls (snd (CheckingLoop (4, None) [CtxDone]
            (snd (CheckingLoop (0, None) [Poll (Inr [])] NewChecker))))
       = [CreatePoller, PollEvents 0, CreatePoller, Close 4]
   \<and> pollerFD (snd (CheckingLoop (4, None) [CtxDone]
            (snd (CheckingLoop (0, None) [Poll (Inr [])] NewChecker)))) = - 1"
  by (simp add: CheckingLoop_def createPoller_def closePoller_def NewChecker_def pollerFD_def
      setReady_def setPollerFD_def called_def Let_def int32_id)

text \<open>
  C7. The claim fails on the code when the poller handle is the descriptor 0. On
  cancellation \<open>CheckingLoop\<close> returns \<open>nil\<close>, and on a failure of \<open>pollEvents\<close> the wrapped
  error, but in both cases without a call of \<open>unix.Close\<close>: \<open>closePoller\<close> closes only a
  handle \<open>> 0\<close>, so the poller is left open while the recorded handle becomes \<open>-1\<close>. On
  the handle 3 the same run ends with \<open>unix.Close(3)\<close>.
\<close>

theorem CheckingLoop_leaves_handle_zero_open:
  "fst (CheckingLoop (0, None) [Poll (Inr []), CtxDone] NewChecker) = Returned None
   \<and> calls (snd (CheckingLoop (0, None) [Poll (Inr []), CtxDone] NewChecker))
       = [CreatePoller, PollEvents 0]
   \<and> Close 0 \<notin> set (calls (snd (CheckingLoop (0, None) [Poll (Inr []), CtxDone] NewChecker)))
   \<and> pollerFD (snd (CheckingLoop (0, None) [Poll (Inr []), CtxDone] NewChecker)) = - 1
   \<and> fst (CheckingLoop (0, None) [Poll (Inl (Syscall (Errno 9)))] NewChecker)
       = Returned (Some (Wrap (Syscall (Errno 9)) ''error during polling loop''))
   \<and> calls (snd (CheckingLoop (0, None) [Poll (Inl (Syscall (Errno 9)))] NewChecker))
       = [CreatePoller, PollEvents 0]
   \<and> fst (CheckingLoop (3, None) [Poll (Inr []), CtxDone] NewChecker) = Returned None
   \<and> calls (snd (CheckingLoop (3, None) [Poll (Inr []), CtxDone] NewChecker))
       = [CreatePoller, PollEvents 3, Close 3]"
  by (simp add: CheckingLoop_def createPoller_def closePoller_def resetReady_def NewChecker_def
      pollerFD_def setReady_def setPollerFD_def called_def Let_def int32_id)




text \<open>
  C8. The claim fails on the code. The polling loop pops the entry of descriptor 7 and
  is then overtaken by the waiter on descriptor 7, which times out, deregisters and puts
  its channel back. Either the loop sends now, and the channel lies in the pool with an
  unconsumed value; or a second check, on descriptor 8, acquires the same channel first,
  and then receives the error of the event for descriptor 7, although no event for
  descriptor 8 was ever handled.
\<close>

theorem pooled_channel_yields_stale_value:
  "map_option (\<lambda>s. (pipePool (shared s), chans (shared s) 0, map w_stage (waiters s)))
     (run [Acquire 0, Register 0, RegisterEv 0,
           Pop (Event 7 (Some (Syscall (Errno 111)))),
           Timeout 0, Deregister 0, PutBack 0,
           Send] two_waiters)
     = Some ([0], Some (Some (Syscall (Errno 111))), [W_returned (Some ErrTimeout), W_start])
   \<and> map_option (\<lambda>s. (map w_stage (waiters s), calls (shared s)))
     (run [Acquire 0, Register 0, RegisterEv 0,
           Pop (Event 7 (Some (Syscall (Errno 111)))),
           Timeout 0, Deregister 0, PutBack 0,
           Acquire 1, Register 1, RegisterEv 1,
           Send,
           Receive 1, Deregister 1, PutBack 1] two_waiters)
     = Some ([W_returned (Some ErrTimeout), W_returned (Some (Syscall (Errno 111)))],
             [GetPipe 0, RegisterResultPipe 7 0, RegisterEvents (- 1) 7, TimeAfter 200000000,
              PopResultPipe 7, DeregisterResultPipe 7, PutBackPipe 0,
              GetPipe 0, RegisterResultPipe 8 0, RegisterEvents (- 1) 8, TimeAfter 200000000,
              DeregisterResultPipe 8, PutBackPipe 0])"
  by (simp add: two_waiters_def NewChecker_def waiter_step_def poller_step_def set_stage_def
      getPipe_def registerResultPipe_def pollerFD_def popResultPipe_def chan_send_def
      chan_recv_def deregisterResultPipe_def putBackPipe_def called_def Let_def)

end
